theory Spec2Isabelle
  imports Main
begin

section \<open>Text and the calculator's state\<close>

text \<open>
  A Python \<open>str\<close> is a sequence of code points, so the model uses lists of
  code points: the button glyphs of the program are not ASCII, and \<open>[:-1]\<close>,
  \<open>[1:]\<close> and \<open>strip\<close> count code points.  \<open>asc\<close> writes an ASCII
  literal as such a list.
\<close>

type_synonym ustr = "nat list"

definition asc :: "string \<Rightarrow> ustr" where
  "asc s = map of_char s"

text \<open>
  \<open>CalculatorLogic\<close> has the two fields \<open>expression\<close> and \<open>history\<close>;
  \<open>__init__\<close> sets both empty.
\<close>

record calc =
  expression :: ustr
  history :: "ustr list"

definition init :: calc where
  "init = \<lparr>expression = [], history = []\<rparr>"

section \<open>The builtins the program calls\<close>

text \<open>
  \<open>safe_eval\<close> catches \<open>ZeroDivisionError\<close> first and \<open>Exception\<close>
  second.  \<open>KeyboardInterrupt\<close> and \<open>SystemExit\<close> derive from
  \<open>BaseException\<close> only, so neither handler catches them.
\<close>

datatype py_exception =
    ZeroDivisionError | SyntaxError | NameError | TypeError | ValueError
  | AttributeError | OverflowError | OtherException
  | KeyboardInterrupt | SystemExit

fun is_Exception :: "py_exception \<Rightarrow> bool" where
  "is_Exception KeyboardInterrupt = False"
| "is_Exception SystemExit = False"
| "is_Exception _ = True"

datatype 'v outcome = Returned 'v | Raised py_exception

text \<open>
  A Python float is an IEEE double: \<open>Finite s m e\<close> is \<open>(-1)\<^sup>s * m * 2\<^sup>e\<close>.
  \<open>value *= -1\<close> flips the sign and leaves a NaN a NaN.
\<close>

datatype pyfloat = Finite bool nat int | Infinite bool | NaN

fun times_minus_one :: "pyfloat \<Rightarrow> pyfloat" where
  "times_minus_one (Finite s m e) = Finite (\<not> s) m e"
| "times_minus_one (Infinite s) = Infinite (\<not> s)"
| "times_minus_one NaN = NaN"

text \<open>
  The builtins \<open>eval\<close>, \<open>str\<close> and \<open>float\<close> belong to the interpreter,
  not to the program, so the program's functions take them as a parameter:
  \<^item> \<open>host_eval names text\<close> is \<open>eval(text, {"__builtins__": {}}, allowed_names)\<close>,
    where \<open>names\<close> are the keys of \<open>allowed_names\<close>; it is taken as a function
    of the text that does not touch the calculator's own fields;
  \<^item> \<open>host_str v\<close> is \<open>str(v)\<close> of an evaluation result, which may raise;
  \<^item> \<open>host_float text\<close> is \<open>float(text)\<close>, \<open>None\<close> when it raises
    \<open>ValueError\<close>;
  \<^item> \<open>host_float_str x\<close> is \<open>str(x)\<close> of a float.
\<close>

record 'v host =
  host_eval :: "ustr list \<Rightarrow> ustr \<Rightarrow> 'v outcome"
  host_str :: "'v \<Rightarrow> py_exception + ustr"
  host_float :: "ustr \<Rightarrow> pyfloat option"
  host_float_str :: "pyfloat \<Rightarrow> ustr"

text \<open>\<open>str.isspace\<close> of one code point, and \<open>str.strip()\<close>.\<close>

definition is_space :: "nat \<Rightarrow> bool" where
  "is_space c \<longleftrightarrow>
     (9 \<le> c \<and> c \<le> 13) \<or> (28 \<le> c \<and> c \<le> 32) \<or> c = 133 \<or> c = 160 \<or> c = 5760
     \<or> (8192 \<le> c \<and> c \<le> 8202) \<or> c = 8232 \<or> c = 8233 \<or> c = 8239 \<or> c = 8287
     \<or> c = 12288"

definition strip :: "ustr \<Rightarrow> ustr" where
  "strip s = rev (dropWhile is_space (rev (dropWhile is_space s)))"

section \<open>The operations of \<open>CalculatorLogic\<close>\<close>

definition clear :: "calc \<Rightarrow> calc" where
  "clear st = st\<lparr>expression := []\<rparr>"

definition backspace :: "calc \<Rightarrow> calc" where
  "backspace st =
     (if expression st \<noteq> [] then st\<lparr>expression := butlast (expression st)\<rparr> else st)"

text \<open>
  The keys of \<open>mapping\<close> are the glyphs U+00D7, U+00F7, \<open>^\<close>, U+03C0 and
  U+221A.
\<close>

definition mapping :: "(ustr \<times> ustr) list" where
  "mapping =
     [([215], asc ''*''),
      ([247], asc ''/''),
      (asc ''^'', asc ''**''),
      ([960], asc ''pi''),
      ([8730], asc ''sqrt('')]"

definition append_token :: "ustr \<Rightarrow> calc \<Rightarrow> calc" where
  "append_token token st =
     (let normalized = (case map_of mapping token of Some v \<Rightarrow> v | None \<Rightarrow> token)
      in st\<lparr>expression := expression st @ normalized\<rparr>)"

definition toggle_sign :: "'v host \<Rightarrow> calc \<Rightarrow> calc" where
  "toggle_sign h st =
     (if expression st = [] then st
      else case host_float h (expression st) of
        Some v \<Rightarrow> st\<lparr>expression := host_float_str h (times_minus_one v)\<rparr>
      | None \<Rightarrow>
          if take 1 (expression st) = asc ''-''
          then st\<lparr>expression := drop 1 (expression st)\<rparr>
          else st\<lparr>expression := asc ''-'' @ expression st\<rparr>)"

definition invert :: "calc \<Rightarrow> calc" where
  "invert st =
     (if expression st = [] then st
      else st\<lparr>expression := asc ''1/('' @ expression st @ asc '')''\<rparr>)"

definition allowed_names :: "ustr list" where
  "allowed_names =
     map asc [''sin'', ''cos'', ''tan'', ''sqrt'', ''log'', ''log10'', ''exp'', ''fabs'',
              ''floor'', ''ceil'', ''factorial'', ''pow'', ''pi'', ''e'']
     @ map asc [''abs'', ''round'']"

text \<open>
  \<open>safe_eval\<close> returns the string it returns in Python (\<open>Inr\<close>) or the
  exception that leaves it (\<open>Inl\<close>), with the state it leaves behind.  An
  exception leaves it in two places: \<open>eval\<close> raises one that is no
  \<open>Exception\<close>, or \<open>str(result)\<close> raises, which happens outside the
  \<open>try\<close>; in both the fields are still untouched.
\<close>

definition safe_eval :: "'v host \<Rightarrow> calc \<Rightarrow> (py_exception + ustr) \<times> calc" where
  "safe_eval h st =
     (if expression st = [] then (Inr (asc ''0''), st)
      else
        let raw_expr = expression st; expr = strip raw_expr in
        case host_eval h allowed_names expr of
          Raised exc \<Rightarrow>
            if exc = ZeroDivisionError
            then (Inr (asc ''Cannot divide by zero''), st\<lparr>expression := []\<rparr>)
            else if is_Exception exc
            then (Inr (asc ''Invalid expression''), st\<lparr>expression := []\<rparr>)
            else (Inl exc, st)
        | Returned result \<Rightarrow>
            (case host_str h result of
               Inl exc \<Rightarrow> (Inl exc, st)
             | Inr display_result \<Rightarrow>
                 let appended = history st @ [raw_expr @ asc '' = '' @ display_result];
                     capped = (if length appended > 20 then drop 1 appended else appended)
                 in (Inr display_result,
                     st\<lparr>history := capped, expression := display_result\<rparr>)))"

definition get_display_value :: "calc \<Rightarrow> ustr" where
  "get_display_value st = (if expression st \<noteq> [] then expression st else asc ''0'')"

text \<open>The public operations, one after the other, from the initial state.\<close>

datatype action = Clear | Backspace | Append ustr | ToggleSign | Invert | Evaluate

fun perform :: "'v host \<Rightarrow> calc \<Rightarrow> action \<Rightarrow> calc" where
  "perform h st Clear = clear st"
| "perform h st Backspace = backspace st"
| "perform h st (Append token) = append_token token st"
| "perform h st ToggleSign = toggle_sign h st"
| "perform h st Invert = invert st"
| "perform h st Evaluate = snd (safe_eval h st)"

definition run :: "'v host \<Rightarrow> action list \<Rightarrow> calc" where
  "run h acts = foldl (perform h) init acts"

section \<open>A reference interpreter for the builtins\<close>

text \<open>
  The examples of the specification name concrete texts, so they need a
  concrete \<open>eval\<close>.  What follows interprets a fragment of Python's
  expression grammar the way CPython does: decimal integer literals, names,
  parentheses and tuples, attribute access, unary \<open>+ -\<close>, and the binary
  operators \<open>+ - * / // % **\<close> on integers.  A result of \<open>None\<close> means
  that the text or the operation is outside the fragment (float literals,
  calls, comparisons, keywords and so on), not that Python rejects it.
\<close>

datatype token = TNum nat | TName ustr | TOp ustr

definition is_digit :: "nat \<Rightarrow> bool" where
  "is_digit c \<longleftrightarrow> 48 \<le> c \<and> c \<le> 57"

definition is_name_start :: "nat \<Rightarrow> bool" where
  "is_name_start c \<longleftrightarrow> (65 \<le> c \<and> c \<le> 90) \<or> (97 \<le> c \<and> c \<le> 122) \<or> c = 95"

definition is_name_char :: "nat \<Rightarrow> bool" where
  "is_name_char c \<longleftrightarrow> is_name_start c \<or> is_digit c"

definition py_keywords :: "ustr list" where
  "py_keywords = map asc
     [''False'', ''None'', ''True'', ''and'', ''as'', ''assert'', ''async'', ''await'',
      ''break'', ''class'', ''continue'', ''def'', ''del'', ''elif'', ''else'', ''except'',
      ''finally'', ''for'', ''from'', ''global'', ''if'', ''import'', ''in'', ''is'',
      ''lambda'', ''nonlocal'', ''not'', ''or'', ''pass'', ''raise'', ''return'', ''try'',
      ''while'', ''with'', ''yield'', ''__debug__'']"

definition decimal_value :: "ustr \<Rightarrow> nat" where
  "decimal_value ds = foldl (\<lambda>a d. 10 * a + (d - 48)) 0 ds"

text \<open>
  A decimal integer literal has no leading zero unless it is all zeros.  A
  digit run followed by a name character or a point is a float, an
  imaginary or a malformed literal: outside the fragment.
\<close>

function lex :: "ustr \<Rightarrow> token list option" where
  "lex [] = Some []"
| "lex (c # cs) =
     (if c = 32 \<or> c = 9 then lex cs
      else if is_digit c then
        (let ds = c # takeWhile is_digit cs; rest = dropWhile is_digit cs in
         if (c = 48 \<and> \<not> list_all (\<lambda>d. d = 48) ds)
            \<or> (rest \<noteq> [] \<and> (is_name_start (hd rest) \<or> hd rest = 46))
         then None
         else map_option ((#) (TNum (decimal_value ds))) (lex rest))
      else if is_name_start c then
        (let name = c # takeWhile is_name_char cs; rest = dropWhile is_name_char cs in
         if name \<in> set py_keywords then None
         else map_option ((#) (TName name)) (lex rest))
      else if (c = 42 \<or> c = 47) \<and> cs \<noteq> [] \<and> hd cs = c then
        map_option ((#) (TOp [c, c])) (lex (tl cs))
      else if c \<in> set (asc ''+-*/%(),.'') then
        map_option ((#) (TOp [c])) (lex cs)
      else None)"
  by pat_completeness auto
termination
  by (relation "measure length") (auto simp: length_dropWhile_le le_imp_less_Suc)

datatype binop = Add | Sub | Mult | Div | FloorDiv | Mod | Pow

datatype expr =
    Num nat
  | Name ustr
  | UAdd expr
  | USub expr
  | BinOp expr binop expr
  | Tuple "expr list"
  | Attribute expr ustr

text \<open>
  Recursive descent after Python's grammar, with the nesting depth bounded
  by the first argument:
  \<^verbatim>\<open>
  testlist: sum (',' sum)* [',']
  sum:      term (('+'|'-') term)*
  term:     factor (('*'|'/'|'//'|'%') factor)*
  factor:   ('+'|'-') factor | primary ['**' factor]
  primary:  atom ('.' NAME)*
  atom:     NUMBER | NAME | '(' [testlist] ')'
  \<close>
\<close>

fun p_trailers :: "expr \<Rightarrow> token list \<Rightarrow> expr \<times> token list" where
  "p_trailers e (TOp d # TName x # r) =
     (if d = asc ''.'' then p_trailers (Attribute e x) r else (e, TOp d # TName x # r))"
| "p_trailers e ts = (e, ts)"

definition term_op :: "ustr \<Rightarrow> binop option" where
  "term_op s =
     (if s = asc ''*'' then Some Mult else if s = asc ''/'' then Some Div
      else if s = asc ''//'' then Some FloorDiv else if s = asc ''%'' then Some Mod
      else None)"

definition sum_op :: "ustr \<Rightarrow> binop option" where
  "sum_op s =
     (if s = asc ''+'' then Some Add else if s = asc ''-'' then Some Sub else None)"

datatype production =
    N_Atom | N_Factor | N_Term | N_TermRest expr | N_Sum | N_SumRest expr
  | N_Testlist | N_Items "expr list"

definition expect_close :: "(expr \<times> token list) option \<Rightarrow> (expr \<times> token list) option" where
  "expect_close res =
     (case res of
        Some (e, TOp s # r) \<Rightarrow> if s = asc '')'' then Some (e, r) else None
      | _ \<Rightarrow> None)"

definition wrap ::
  "(expr \<Rightarrow> expr) \<Rightarrow> (expr \<times> token list) option \<Rightarrow> (expr \<times> token list) option" where
  "wrap f res = map_option (\<lambda>(e, r). (f e, r)) res"

primrec descend :: "nat \<Rightarrow> production \<Rightarrow> token list \<Rightarrow> (expr \<times> token list) option" where
  "descend 0 nt ts = None"
| "descend (Suc k) nt ts =
     (case nt of
        N_Atom \<Rightarrow>
          (case ts of
             TNum n # r \<Rightarrow> Some (Num n, r)
           | TName x # r \<Rightarrow> Some (Name x, r)
           | TOp s # r \<Rightarrow>
               if s \<noteq> asc ''('' then None
               else if take 1 r = [TOp (asc '')'')] then Some (Tuple [], drop 1 r)
               else expect_close (descend k N_Testlist r)
           | [] \<Rightarrow> None)
      | N_Factor \<Rightarrow>
          if take 1 ts = [TOp (asc ''+'')] then wrap UAdd (descend k N_Factor (drop 1 ts))
          else if take 1 ts = [TOp (asc ''-'')] then wrap USub (descend k N_Factor (drop 1 ts))
          else (case descend k N_Atom ts of
                  None \<Rightarrow> None
                | Some (a, r1) \<Rightarrow>
                    (case p_trailers a r1 of
                       (p, r2) \<Rightarrow>
                         if take 1 r2 = [TOp (asc ''**'')]
                         then wrap (BinOp p Pow) (descend k N_Factor (drop 1 r2))
                         else Some (p, r2)))
      | N_Term \<Rightarrow>
          (case descend k N_Factor ts of
             None \<Rightarrow> None
           | Some (lhs, r) \<Rightarrow> descend k (N_TermRest lhs) r)
      | N_TermRest lhs \<Rightarrow>
          (case ts of
             TOp s # r \<Rightarrow>
               (case term_op s of
                  None \<Rightarrow> Some (lhs, ts)
                | Some oper \<Rightarrow>
                    (case descend k N_Factor r of
                       None \<Rightarrow> None
                     | Some (rhs, r') \<Rightarrow> descend k (N_TermRest (BinOp lhs oper rhs)) r'))
           | _ \<Rightarrow> Some (lhs, ts))
      | N_Sum \<Rightarrow>
          (case descend k N_Term ts of
             None \<Rightarrow> None
           | Some (lhs, r) \<Rightarrow> descend k (N_SumRest lhs) r)
      | N_SumRest lhs \<Rightarrow>
          (case ts of
             TOp s # r \<Rightarrow>
               (case sum_op s of
                  None \<Rightarrow> Some (lhs, ts)
                | Some oper \<Rightarrow>
                    (case descend k N_Term r of
                       None \<Rightarrow> None
                     | Some (rhs, r') \<Rightarrow> descend k (N_SumRest (BinOp lhs oper rhs)) r'))
           | _ \<Rightarrow> Some (lhs, ts))
      | N_Testlist \<Rightarrow>
          (case descend k N_Sum ts of
             None \<Rightarrow> None
           | Some (e, r) \<Rightarrow>
               if take 1 r = [TOp (asc '','')] then descend k (N_Items [e]) r else Some (e, r))
      | N_Items es \<Rightarrow>
          if take 1 ts \<noteq> [TOp (asc '','')] then Some (Tuple es, ts)
          else (case descend k N_Sum (drop 1 ts) of
                  None \<Rightarrow> Some (Tuple es, drop 1 ts)
                | Some (e, r) \<Rightarrow> descend k (N_Items (es @ [e])) r))"

text \<open>
  The whole text has to be one \<open>testlist\<close>.  The depth of the descent is
  bounded by a multiple of the number of tokens; a text that needs more is
  outside the fragment.
\<close>

definition parse :: "ustr \<Rightarrow> expr option" where
  "parse s =
     (case lex s of
        None \<Rightarrow> None
      | Some ts \<Rightarrow>
          (case descend (8 * length ts + 8) N_Testlist ts of
             Some (e, []) \<Rightarrow> Some e
           | _ \<Rightarrow> None))"

text \<open>The decimal digits of a natural number, as \<open>str\<close> and \<open>repr\<close> print them.\<close>

fun digits :: "nat \<Rightarrow> ustr" where
  "digits n = (if n < 10 then [48 + n] else digits (n div 10) @ [48 + n mod 10])"

declare digits.simps [simp del]

text \<open>
  \<open>float(text)\<close> after CPython: code points beyond ASCII that are spaces
  or decimal digits are replaced by their ASCII counterparts (any other one
  by \<open>?\<close>, where the text is cut), ASCII blanks are stripped at both ends,
  underscores may stand between two digits, and what is left is
  \<^verbatim>\<open>[sign] (digits ['.' digits] | '.' digits) [('e'|'E') [sign] digits]\<close>
  or \<^verbatim>\<open>[sign] ('inf' | 'infinity' | 'nan')\<close> in any case of letters.  The
  value is the double nearest to the decimal number, ties to even.
\<close>

definition unicode_digit_runs :: "nat list" where
  "unicode_digit_runs =
     [1632, 1776, 1984, 2406, 2534, 2662, 2790, 2918, 3046, 3174, 3302, 3430, 3558, 3664,
      3792, 3872, 4160, 4240, 6112, 6160, 6470, 6608, 6784, 6800, 6992, 7088, 7232, 7248,
      42528, 43216, 43264, 43472, 43504, 43600, 44016, 65296, 66720, 68912, 69734, 69872,
      69942, 70096, 70384, 70736, 70864, 71248, 71360, 71472, 71904, 72016, 72784, 73040,
      73120, 92768, 92864, 93008, 120782, 120792, 120802, 120812, 120822, 123200, 123632,
      125264, 130032]"

definition unicode_decimal :: "nat \<Rightarrow> nat option" where
  "unicode_decimal c =
     (case filter (\<lambda>s. s \<le> c \<and> c < s + 10) unicode_digit_runs of
        [] \<Rightarrow> None
      | s # rest \<Rightarrow> Some (c - s))"

fun transform_to_ascii :: "ustr \<Rightarrow> ustr" where
  "transform_to_ascii [] = []"
| "transform_to_ascii (c # cs) =
     (if c < 127 then c # transform_to_ascii cs
      else if is_space c then 32 # transform_to_ascii cs
      else (case unicode_decimal c of
              Some d \<Rightarrow> (48 + d) # transform_to_ascii cs
            | None \<Rightarrow> [63]))"

definition is_ascii_space :: "nat \<Rightarrow> bool" where
  "is_ascii_space c \<longleftrightarrow> (9 \<le> c \<and> c \<le> 13) \<or> c = 32"

fun underscores_ok :: "nat \<Rightarrow> ustr \<Rightarrow> bool" where
  "underscores_ok prev [] = (prev \<noteq> 95)"
| "underscores_ok prev (c # cs) =
     ((if c = 95 then is_digit prev else if prev = 95 then is_digit c else True)
      \<and> underscores_ok c cs)"

definition to_lower :: "nat \<Rightarrow> nat" where
  "to_lower c = (if 65 \<le> c \<and> c \<le> 90 then c + 32 else c)"

definition parse_inf_or_nan :: "bool \<Rightarrow> ustr \<Rightarrow> pyfloat option" where
  "parse_inf_or_nan negate s =
     (let l = map to_lower s in
      if l = asc ''inf'' \<or> l = asc ''infinity'' then Some (Infinite negate)
      else if l = asc ''nan'' then Some NaN
      else None)"

text \<open>The digits of the mantissa as one number, and the power of ten to go with it.\<close>

definition parse_decimal :: "ustr \<Rightarrow> (nat \<times> int) option" where
  "parse_decimal s =
     (let ip = takeWhile is_digit s;
          r1 = dropWhile is_digit s;
          fp = (if take 1 r1 = asc ''.'' then takeWhile is_digit (drop 1 r1) else []);
          r2 = (if take 1 r1 = asc ''.'' then dropWhile is_digit (drop 1 r1) else r1)
      in if ip = [] \<and> fp = [] then None
         else if r2 = [] then Some (decimal_value (ip @ fp), - int (length fp))
         else if take 1 r2 = asc ''e'' \<or> take 1 r2 = asc ''E'' then
           (let r3 = drop 1 r2;
                ds = (if take 1 r3 = asc ''-'' \<or> take 1 r3 = asc ''+'' then drop 1 r3 else r3)
            in if ds = [] \<or> \<not> list_all is_digit ds then None
               else Some (decimal_value (ip @ fp),
                          (if take 1 r3 = asc ''-'' then - int (decimal_value ds)
                           else int (decimal_value ds)) - int (length fp)))
         else None)"

fun bit_length :: "nat \<Rightarrow> nat" where
  "bit_length n = (if n = 0 then 0 else Suc (bit_length (n div 2)))"

declare bit_length.simps [simp del]

text \<open>
  \<open>round_to_double s n d\<close> is the double nearest to \<open>n / d\<close>, ties to even,
  with sign \<open>s\<close>: \<open>f\<close> is the binary exponent of the quotient, the mantissa
  has 53 bits (fewer when the exponent would fall below \<open>-1074\<close>), and a
  result of 2 to the 1024 or more is an infinity.
\<close>

definition round_half_even :: "nat \<Rightarrow> nat \<Rightarrow> nat" where
  "round_half_even n d =
     (let k = n div d; r = n mod d in
      if 2 * r < d then k
      else if d < 2 * r then k + 1
      else if even k then k else k + 1)"

definition round_to_double :: "bool \<Rightarrow> nat \<Rightarrow> nat \<Rightarrow> pyfloat" where
  "round_to_double s n d =
     (if n = 0 then Finite s 0 0
      else
        let b = int (bit_length n) - int (bit_length d);
            f = (if (if 0 \<le> b then d * 2 ^ nat b \<le> n else d \<le> n * 2 ^ nat (- b))
                 then b else b - 1);
            e = max (f - 52) (- 1074);
            m = (if 0 \<le> e then round_half_even n (d * 2 ^ nat e)
                 else round_half_even (n * 2 ^ nat (- e)) d);
            m' = (if m = 2 ^ 53 then 2 ^ 52 else m);
            e' = (if m = 2 ^ 53 then e + 1 else e)
        in if 971 < e' then Infinite s
           else if m' = 0 then Finite s 0 0
           else Finite s m' e')"

definition py_float :: "ustr \<Rightarrow> pyfloat option" where
  "py_float text =
     (let a = (if list_all (\<lambda>c. c < 128) text then text else transform_to_ascii text);
          b = rev (dropWhile is_ascii_space (rev (dropWhile is_ascii_space a)))
      in if \<not> underscores_ok 0 b then None
         else
           let c = filter (\<lambda>x. x \<noteq> 95) b;
               negate = (take 1 c = asc ''-'');
               body = (if take 1 c = asc ''-'' \<or> take 1 c = asc ''+'' then drop 1 c else c)
           in case parse_decimal body of
                Some (digs, sc) \<Rightarrow>
                  Some (if 0 \<le> sc then round_to_double negate (digs * 10 ^ nat sc) 1
                        else round_to_double negate digs (10 ^ nat (- sc)))
              | None \<Rightarrow> parse_inf_or_nan negate body)"

text \<open>
  \<open>str\<close> of a float is its \<open>repr\<close>: the shortest decimal digit string that
  \<open>float\<close> reads back as the same double and, among those, the nearest;
  seventeen digits always do.  \<open>decimal_point\<close> is the number of digits
  before the point of \<open>xn / xd\<close> (zero or negative below one).
  \<open>candidate m e n\<close> tries \<open>n\<close> digits for the double \<open>m * 2\<^sup>e\<close>: the
  \<open>n\<close>-digit decimals just below and just above it, read back with
  \<open>round_to_double\<close>; it returns the digits as a number with the place of
  the point.  The format is that of \<open>repr\<close>: an exponent when the point
  would stand more than 16 digits to the right or 4 or more to the left.
\<close>

definition decimal_point :: "nat \<Rightarrow> nat \<Rightarrow> int" where
  "decimal_point xn xd =
     (if xd \<le> xn then int (length (digits (xn div xd)))
      else 1 - int (length (digits (xd div xn))))"

definition candidate :: "nat \<Rightarrow> int \<Rightarrow> nat \<Rightarrow> (nat \<times> int) option" where
  "candidate m e n =
     (let xn = (if 0 \<le> e then m * 2 ^ nat e else m);
          xd = (if 0 \<le> e then 1 else 2 ^ nat (- e));
          k = decimal_point xn xd;
          sn = (if k \<le> int n then xn * 10 ^ nat (int n - k) else xn);
          sd = (if k \<le> int n then xd else xd * 10 ^ nat (k - int n));
          lo = sn div sd;
          r = sn mod sd;
          back = (\<lambda>c. if k \<le> int n then round_to_double False c (10 ^ nat (int n - k))
                      else round_to_double False (c * 10 ^ nat (k - int n)) 1);
          lo_ok = (back lo = Finite False m e);
          hi_ok = (r \<noteq> 0 \<and> back (lo + 1) = Finite False m e);
          pick = (if lo_ok \<and> hi_ok then
                    (if 2 * r < sd then Some lo
                     else if sd < 2 * r then Some (lo + 1)
                     else if even lo then Some lo else Some (lo + 1))
                  else if lo_ok then Some lo
                  else if hi_ok then Some (lo + 1)
                  else None)
      in map_option (\<lambda>c. (c, k - int n + int (length (digits c)))) pick)"

primrec shortest :: "nat \<Rightarrow> nat \<Rightarrow> int \<Rightarrow> nat \<Rightarrow> nat \<times> int" where
  "shortest 0 m e n = (0, 0)"
| "shortest (Suc fuel) m e n =
     (case candidate m e n of
        Some c \<Rightarrow> c
      | None \<Rightarrow> shortest fuel m e (Suc n))"

definition zeros :: "nat \<Rightarrow> ustr" where
  "zeros n = replicate n 48"

definition format_repr :: "ustr \<Rightarrow> int \<Rightarrow> ustr" where
  "format_repr ds decpt =
     (if decpt \<le> - 4 \<or> 16 < decpt then
        (let x = decpt - 1; xs = digits (nat \<bar>x\<bar>) in
         take 1 ds @ (if length ds > 1 then asc ''.'' @ drop 1 ds else [])
         @ asc ''e'' @ (if x < 0 then asc ''-'' else asc ''+'')
         @ (if length xs < 2 then zeros 1 else []) @ xs)
      else if decpt \<le> 0 then asc ''0.'' @ zeros (nat (- decpt)) @ ds
      else if int (length ds) \<le> decpt then ds @ zeros (nat decpt - length ds) @ asc ''.0''
      else take (nat decpt) ds @ asc ''.'' @ drop (nat decpt) ds)"

definition py_float_str :: "pyfloat \<Rightarrow> ustr" where
  "py_float_str x =
     (case x of
        NaN \<Rightarrow> asc ''nan''
      | Infinite s \<Rightarrow> (if s then asc ''-inf'' else asc ''inf'')
      | Finite s m e \<Rightarrow>
          (if s then asc ''-'' else []) @
          (if m = 0 then asc ''0.0''
           else (case shortest 17 m e 1 of
                   (c, decpt) \<Rightarrow>
                     format_repr (rev (dropWhile (\<lambda>d. d = 48) (rev (digits c)))) decpt)))"

text \<open>
  Values: integers, floats, tuples, the builtin functions of the namespace
  and classes.  \<open>None\<close> is again "outside the fragment"; an exception of an
  operand evaluated earlier wins over anything that comes later.
\<close>

datatype pyval =
  VInt int | VFloat pyfloat | VTuple "pyval list" | VBuiltin ustr | VClass ustr

fun class_of :: "pyval \<Rightarrow> ustr" where
  "class_of (VInt i) = asc ''int''"
| "class_of (VFloat x) = asc ''float''"
| "class_of (VTuple vs) = asc ''tuple''"
| "class_of (VBuiltin f) = asc ''builtin_function_or_method''"
| "class_of (VClass c) = asc ''type''"

fun collect :: "'a outcome option list \<Rightarrow> 'a list outcome option" where
  "collect [] = Some (Returned [])"
| "collect (None # rs) = None"
| "collect (Some (Raised exc) # rs) = Some (Raised exc)"
| "collect (Some (Returned v) # rs) =
     (case collect rs of
        Some (Returned vs) \<Rightarrow> Some (Returned (v # vs))
      | other \<Rightarrow> other)"

text \<open>
  The quotient of two integers is the double nearest to it, and an
  \<open>OverflowError\<close> when that would be an infinity.  Any other arithmetic
  with a float is outside the fragment.
\<close>

fun int_binop :: "binop \<Rightarrow> int \<Rightarrow> int \<Rightarrow> pyval outcome option" where
  "int_binop Add a b = Some (Returned (VInt (a + b)))"
| "int_binop Sub a b = Some (Returned (VInt (a - b)))"
| "int_binop Mult a b = Some (Returned (VInt (a * b)))"
| "int_binop Div a b =
     (if b = 0 then Some (Raised ZeroDivisionError)
      else (case round_to_double ((a < 0) \<noteq> (b < 0)) (nat \<bar>a\<bar>) (nat \<bar>b\<bar>) of
              Infinite s \<Rightarrow> Some (Raised OverflowError)
            | x \<Rightarrow> Some (Returned (VFloat x))))"
| "int_binop FloorDiv a b =
     (if b = 0 then Some (Raised ZeroDivisionError) else Some (Returned (VInt (a div b))))"
| "int_binop Mod a b =
     (if b = 0 then Some (Raised ZeroDivisionError) else Some (Returned (VInt (a mod b))))"
| "int_binop Pow a b =
     (if 0 \<le> b then Some (Returned (VInt (a ^ nat b)))
      else if a = 0 then Some (Raised ZeroDivisionError)
      else None)"

fun interp :: "ustr list \<Rightarrow> expr \<Rightarrow> pyval outcome option" where
  "interp ns (Num n) = Some (Returned (VInt (int n)))"
| "interp ns (Name x) =
     (if x \<in> set ns then
        (if x = asc ''pi'' \<or> x = asc ''e'' then None else Some (Returned (VBuiltin x)))
      else if x = asc ''__builtins__'' then None
      else Some (Raised NameError))"
| "interp ns (UAdd e) =
     (case interp ns e of
        Some (Returned (VInt a)) \<Rightarrow> Some (Returned (VInt a))
      | Some (Returned v) \<Rightarrow> None
      | other \<Rightarrow> other)"
| "interp ns (USub e) =
     (case interp ns e of
        Some (Returned (VInt a)) \<Rightarrow> Some (Returned (VInt (- a)))
      | Some (Returned v) \<Rightarrow> None
      | other \<Rightarrow> other)"
| "interp ns (BinOp l oper r) =
     (case interp ns l of
        Some (Returned a) \<Rightarrow>
          (case interp ns r of
             Some (Returned b) \<Rightarrow>
               (case (a, b) of (VInt x, VInt y) \<Rightarrow> int_binop oper x y | other \<Rightarrow> None)
           | other \<Rightarrow> other)
      | other \<Rightarrow> other)"
| "interp ns (Tuple es) =
     (case collect (map (interp ns) es) of
        Some (Returned vs) \<Rightarrow> Some (Returned (VTuple vs))
      | Some (Raised exc) \<Rightarrow> Some (Raised exc)
      | None \<Rightarrow> None)"
| "interp ns (Attribute e x) =
     (case interp ns e of
        Some (Returned v) \<Rightarrow>
          if x = asc ''__class__'' then Some (Returned (VClass (class_of v))) else None
      | other \<Rightarrow> other)"

definition py_eval_fragment :: "ustr list \<Rightarrow> ustr \<Rightarrow> pyval outcome option" where
  "py_eval_fragment ns s = (case parse s of None \<Rightarrow> None | Some e \<Rightarrow> interp ns e)"

text \<open>
  The reference \<open>eval\<close> is the interpreter inside the fragment.  Outside
  it the outcome is left unspecified: nothing is proved about it there, and
  every example is shown to lie inside the fragment first.
\<close>

definition py_eval :: "ustr list \<Rightarrow> ustr \<Rightarrow> pyval outcome" where
  "py_eval ns s = (case py_eval_fragment ns s of Some res \<Rightarrow> res | None \<Rightarrow> undefined)"

text \<open>
  \<open>str\<close> of these values.  CPython refuses to print an integer of more
  than 4300 digits and raises \<open>ValueError\<close>.
\<close>

definition int_str :: "int \<Rightarrow> py_exception + ustr" where
  "int_str i =
     (let ds = digits (nat \<bar>i\<bar>) in
      if length ds > 4300 then Inl ValueError
      else Inr ((if i < 0 then asc ''-'' else []) @ ds))"

fun join_reprs :: "(py_exception + ustr) list \<Rightarrow> py_exception + ustr" where
  "join_reprs [] = Inr []"
| "join_reprs (Inl exc # rs) = Inl exc"
| "join_reprs [Inr s] = Inr s"
| "join_reprs (Inr s # r # rs) =
     (case join_reprs (r # rs) of Inl exc \<Rightarrow> Inl exc | Inr t \<Rightarrow> Inr (s @ asc '', '' @ t))"

fun py_str :: "pyval \<Rightarrow> py_exception + ustr" where
  "py_str (VInt i) = int_str i"
| "py_str (VFloat x) = Inr (py_float_str x)"
| "py_str (VTuple vs) =
     (case join_reprs (map py_str vs) of
        Inl exc \<Rightarrow> Inl exc
      | Inr s \<Rightarrow> Inr (asc ''('' @ s @ (if length vs = 1 then asc '','' else []) @ asc '')''))"
| "py_str (VBuiltin f) = Inr (asc ''<built-in function '' @ f @ asc ''>'')"
| "py_str (VClass c) = Inr (asc ''<class '' @ [39] @ c @ [39] @ asc ''>'')"

text \<open>The reference builtins together.\<close>

definition cpython :: "pyval host" where
  "cpython = \<lparr>host_eval = py_eval, host_str = py_str,
               host_float = py_float, host_float_str = py_float_str\<rparr>"

section \<open>Frame lemmas\<close>

lemma history_clear: "history (clear st) = history st"
  by (simp add: clear_def)

lemma history_backspace: "history (backspace st) = history st"
  by (simp add: backspace_def)

lemma history_append_token: "history (append_token token st) = history st"
  by (simp add: append_token_def Let_def)

lemma history_toggle_sign: "history (toggle_sign h st) = history st"
  by (simp add: toggle_sign_def split: option.splits)

lemma history_invert: "history (invert st) = history st"
  by (simp add: invert_def)

section \<open>Evaluating the reference builtins\<close>

lemma bit_length_numeral:
  "bit_length 0 = 0"
  "bit_length (Suc 0) = Suc 0"
  "bit_length (numeral k) = Suc (bit_length (numeral k div 2))"
  by (simp_all add: bit_length.simps [of 0] bit_length.simps [of "Suc 0"]
      bit_length.simps [of "numeral k"])

lemma digits_numeral:
  "digits 0 = [48]"
  "digits (Suc 0) = [49]"
  "digits (numeral k) =
     (if numeral k < (10::nat) then [48 + numeral k]
      else digits (numeral k div 10) @ [48 + numeral k mod 10])"
  by (simp_all add: digits.simps [of 0] digits.simps [of "Suc 0"] digits.simps [of "numeral k"])

lemmas float_eval = py_float_def parse_decimal_def parse_inf_or_nan_def round_to_double_def
  round_half_even_def decimal_value_def is_digit_def is_ascii_space_def to_lower_def asc_def
  bit_length_numeral Let_def

lemmas float_str_eval = candidate_def decimal_point_def round_to_double_def
  round_half_even_def bit_length_numeral digits_numeral Let_def

lemma shortest_at_first: "candidate m e (Suc 0) = Some c \<Longrightarrow> shortest 17 m e (Suc 0) = c"
  by (simp add: numeral_eq_Suc)

lemma float_4: "py_float (asc ''4'') = Some (Finite False 4503599627370496 (- 50))"
  by (simp add: float_eval)

lemma float_minus_4_0: "py_float (asc ''-4.0'') = Some (Finite True 4503599627370496 (- 50))"
  by (simp add: float_eval)

lemma float_4_0: "py_float (asc ''4.0'') = Some (Finite False 4503599627370496 (- 50))"
  by (simp add: float_eval)

lemma candidate_4: "candidate 4503599627370496 (- 50) (Suc 0) = Some (4, 1)"
  by (simp add: float_str_eval)

lemma float_str_4:
  "py_float_str (Finite s 4503599627370496 (- 50)) = (if s then asc ''-4.0'' else asc ''4.0'')"
proof -
  have "shortest 17 4503599627370496 (- 50) (Suc 0) = (4, 1)"
    by (rule shortest_at_first [OF candidate_4])
  then show ?thesis
    by (simp add: py_float_str_def format_repr_def zeros_def digits_numeral asc_def)
qed

lemma float_lone_minus: "py_float (asc ''-'') = None"
  by (simp add: float_eval)

text \<open>
  The texts of the examples are inside the fragment: the interpreter gives
  each an outcome of its own, which is then the outcome of \<open>py_eval\<close>.
\<close>

lemma inside_fragment: "py_eval_fragment ns s = Some res \<Longrightarrow> py_eval ns s = res"
  by (simp add: py_eval_def)

lemma fragment_2_plus_3:
  "py_eval_fragment allowed_names (strip (asc ''2+3'')) = Some (Returned (VInt 5))"
  by code_simp

lemma fragment_5_by_0:
  "py_eval_fragment allowed_names (strip (asc ''5/0'')) = Some (Raised ZeroDivisionError)"
  by code_simp



lemma fragment_tuple_class:
  "py_eval_fragment allowed_names (strip (asc ''().__class__''))
     = Some (Returned (VClass (asc ''tuple'')))"
  by code_simp

lemma eval_2_plus_3: "py_eval allowed_names (strip (asc ''2+3'')) = Returned (VInt 5)"
  by (rule inside_fragment [OF fragment_2_plus_3])

lemma str_5: "py_str (VInt 5) = Inr (asc ''5'')"
  by code_simp

lemma eval_5_by_0: "py_eval allowed_names (strip (asc ''5/0'')) = Raised ZeroDivisionError"
  by (rule inside_fragment [OF fragment_5_by_0])




lemma eval_tuple_class:
  "py_eval allowed_names (strip (asc ''().__class__'')) = Returned (VClass (asc ''tuple''))"
  by (rule inside_fragment [OF fragment_tuple_class])

lemma str_tuple_class:
  "py_str (VClass (asc ''tuple'')) = Inr (asc ''<class '' @ [39] @ asc ''tuple'' @ [39] @ asc ''>'')"
  by code_simp

text \<open>
  An integer of more than 4300 digits: \<open>10**4300\<close> evaluates, and
  \<open>str\<close> of the result raises.  The number itself is never written out.
\<close>

lemma digits_nonempty: "digits n \<noteq> []"
  by (simp add: digits.simps [of n])

lemma digits_length: "10 ^ k \<le> n \<Longrightarrow> k < length (digits n)"
proof (induction k arbitrary: n)
  case 0
  then show ?case using digits_nonempty [of n] by (cases "digits n") auto
next
  case (Suc k)
  then have scaled: "10 * 10 ^ k \<le> n" by simp
  have "1 \<le> (10::nat) ^ k" by simp
  then have "(10::nat) \<le> 10 * 10 ^ k" by linarith
  from this scaled have big: "10 \<le> n" by (rule order_trans)
  from scaled have "10 ^ k \<le> n div 10"
    by (simp add: less_eq_div_iff_mult_less_eq mult.commute)
  then have "k < length (digits (n div 10))" using Suc.IH by blast
  with big show ?case by (simp add: digits.simps [of n])
qed

lemma int_str_limit:
  assumes "4300 \<le> k" and "10 ^ k \<le> n"
  shows "int_str (int n) = Inl ValueError"
proof -
  from digits_length [OF assms(2)] assms(1) have "4300 < length (digits n)" by simp
  then show ?thesis by (simp add: int_str_def Let_def)
qed

lemma parse_big_power:
  "parse (strip (asc ''10**4300'')) = Some (BinOp (Num 10) Pow (Num 4300))"
  by code_simp

lemma interp_power: "interp ns (BinOp (Num a) Pow (Num b)) = Some (Returned (VInt (int (a ^ b))))"
  by simp

lemma fragment_big_power:
  "py_eval_fragment allowed_names (strip (asc ''10**4300''))
     = Some (Returned (VInt (int (10 ^ 4300))))"
  unfolding py_eval_fragment_def parse_big_power option.case by (rule interp_power)

lemma str_big_power: "py_str (VInt (int (10 ^ 4300))) = Inl ValueError"
  unfolding py_str.simps by (rule int_str_limit [of 4300]) (rule le_refl)+

lemma cpython_fields:
  "host_eval cpython = py_eval" "host_str cpython = py_str"
  "host_float cpython = py_float" "host_float_str cpython = py_float_str"
  by (simp_all add: cpython_def)

text \<open>The reciprocal of 4, which \<open>invert\<close> writes as \<open>1/(4)\<close>.\<close>

lemma parse_reciprocal:
  "parse (strip (asc ''1/(4)'')) = Some (BinOp (Num 1) Div (Num 4))"
  by code_simp

lemma quarter: "round_to_double False (Suc 0) 4 = Finite False 4503599627370496 (- 54)"
  by (simp add: round_to_double_def round_half_even_def bit_length_numeral Let_def)

lemma fragment_reciprocal:
  "py_eval_fragment allowed_names (strip (asc ''1/(4)''))
     = Some (Returned (VFloat (Finite False 4503599627370496 (- 54))))"
  unfolding py_eval_fragment_def parse_reciprocal option.case
  by (simp add: quarter)

lemma candidate_quarter:
  "candidate 4503599627370496 (- 54) (Suc 0) = None"
  "candidate 4503599627370496 (- 54) (Suc (Suc 0)) = Some (25, 0)"
  by (simp_all add: float_str_eval)

lemma shortest_at_second:
  "candidate m e (Suc 0) = None \<Longrightarrow> candidate m e (Suc (Suc 0)) = Some c
     \<Longrightarrow> shortest 17 m e (Suc 0) = c"
  by (simp add: numeral_eq_Suc)

lemma str_quarter: "py_str (VFloat (Finite False 4503599627370496 (- 54))) = Inr (asc ''0.25'')"
proof -
  have "shortest 17 4503599627370496 (- 54) (Suc 0) = (25, 0)"
    by (rule shortest_at_second [OF candidate_quarter])
  then show ?thesis
    by (simp add: py_float_str_def format_repr_def zeros_def digits_numeral asc_def)
qed

section \<open>What \<open>safe_eval\<close> does on each path\<close>

lemma safe_eval_returned:
  assumes "expression st \<noteq> []"
    and "host_eval h allowed_names (strip (expression st)) = Returned v"
    and "host_str h v = Inr r"
  shows "safe_eval h st =
    (Inr r,
     st\<lparr>history :=
           (if length (history st) < 20 then history st @ [expression st @ asc '' = '' @ r]
            else drop 1 (history st) @ [expression st @ asc '' = '' @ r]),
        expression := r\<rparr>)"
proof (cases "length (history st) < 20")
  case True
  with assms show ?thesis
    by (simp add: safe_eval_def Let_def)
next
  case False
  then have "history st \<noteq> []" by auto
  with False assms show ?thesis
    by (simp add: safe_eval_def Let_def)
qed

lemma safe_eval_zero_division:
  assumes "expression st \<noteq> []"
    and "host_eval h allowed_names (strip (expression st)) = Raised ZeroDivisionError"
  shows "safe_eval h st = (Inr (asc ''Cannot divide by zero''), st\<lparr>expression := []\<rparr>)"
  using assms by (simp add: safe_eval_def Let_def)


lemma safe_eval_escapes:
  assumes "expression st \<noteq> []"
  shows "host_eval h allowed_names (strip (expression st)) = Raised exc
           \<Longrightarrow> \<not> is_Exception exc \<Longrightarrow> safe_eval h st = (Inl exc, st)"
    and "host_eval h allowed_names (strip (expression st)) = Returned v
           \<Longrightarrow> host_str h v = Inl exc \<Longrightarrow> safe_eval h st = (Inl exc, st)"
  using assms by (auto simp: safe_eval_def Let_def)

lemma safe_eval_history_cases:
  "history (snd (safe_eval h st)) = history st
   \<or> (\<exists>entry. length (history st) < 20
        \<and> history (snd (safe_eval h st)) = history st @ [entry])
   \<or> (\<exists>entry. 20 \<le> length (history st)
        \<and> history (snd (safe_eval h st)) = drop 1 (history st) @ [entry])"
proof (cases "expression st = []")
  case True
  then show ?thesis by (simp add: safe_eval_def)
next
  case nonempty: False
  show ?thesis
  proof (cases "host_eval h allowed_names (strip (expression st))")
    case (Raised exc)
    with nonempty show ?thesis by (simp add: safe_eval_def Let_def)
  next
    case (Returned v)
    show ?thesis
    proof (cases "host_str h v")
      case (Inl exc)
      with nonempty Returned show ?thesis by (simp add: safe_eval_def Let_def)
    next
      case (Inr r)
      from safe_eval_returned [OF nonempty Returned Inr] show ?thesis
        by (cases "length (history st) < 20") auto
    qed
  qed
qed

lemma perform_history_cases:
  "history (perform h st a) = history st
   \<or> (\<exists>entry. length (history st) < 20 \<and> history (perform h st a) = history st @ [entry])
   \<or> (\<exists>entry. 20 \<le> length (history st)
        \<and> history (perform h st a) = drop 1 (history st) @ [entry])"
proof (cases a)
  case Evaluate
  then show ?thesis using safe_eval_history_cases [of h st] by simp
qed (simp_all add: history_clear history_backspace history_append_token
       history_toggle_sign history_invert)

lemma perform_bounded:
  assumes "length (history st) \<le> 20"
  shows "length (history (perform h st a)) \<le> 20"
  using perform_history_cases [of h st a] assms by auto

lemma foldl_perform_bounded:
  "length (history st) \<le> 20 \<Longrightarrow> length (history (foldl (perform h) st acts)) \<le> 20"
  by (induction acts arbitrary: st) (simp_all add: perform_bounded)

lemma run_bounded: "length (history (run h acts)) \<le> 20"
  unfolding run_def by (rule foldl_perform_bounded) (simp add: init_def)

text \<open>\<open>invert\<close> on \<open>"4"\<close> and then \<open>evaluate\<close> give \<open>"0.25"\<close>.\<close>

lemma reciprocal_of_4:
  "safe_eval cpython (invert \<lparr>expression = asc ''4'', history = []\<rparr>)
     = (Inr (asc ''0.25''), \<lparr>expression = asc ''0.25'', history = [asc ''1/(4) = 0.25'']\<rparr>)"
  using safe_eval_returned
    [of "\<lparr>expression = asc ''1/(4)'', history = []\<rparr>" cpython
        "VFloat (Finite False 4503599627370496 (- 54))" "asc ''0.25''"]
    inside_fragment [OF fragment_reciprocal] str_quarter
  by (simp add: invert_def cpython_def asc_def)

section \<open>A minus sign in front of a text that \<open>float\<close> rejects\<close>

text \<open>
  If \<open>float\<close> accepts \<open>"-" + s\<close> it accepts \<open>s\<close>: after the sign comes a
  digit, a point or the first letter of \<open>inf\<close> or \<open>nan\<close>, so \<open>s\<close> has no
  blank, sign or underscore in front and goes through the same parse.
\<close>

lemma dropWhile_snoc: "\<not> P z \<Longrightarrow> dropWhile P (ys @ [z]) = dropWhile P ys @ [z]"
  by (induction ys) auto

lemma rstrip_prefix:
  assumes "rev (dropWhile P (rev a)) = c # r"
  shows "\<exists>t. a = c # r @ t"
proof -
  have "rev a = takeWhile P (rev a) @ dropWhile P (rev a)"
    by simp
  then have "a = rev (dropWhile P (rev a)) @ rev (takeWhile P (rev a))"
    by (metis rev_append rev_rev_ident)
  with assms show ?thesis by auto
qed

lemma parse_decimal_none:
  "s = [] \<or> (\<not> is_digit (hd s) \<and> hd s \<noteq> 46) \<Longrightarrow> parse_decimal s = None"
  by (cases s) (simp_all add: parse_decimal_def Let_def asc_def)

lemma parse_inf_or_nan_none:
  "s = [] \<or> hd s \<notin> {105, 73, 110, 78} \<Longrightarrow> parse_inf_or_nan n s = None"
  by (cases s) (auto simp: parse_inf_or_nan_def Let_def asc_def to_lower_def)

lemma parse_inf_or_nan_sign:
  "parse_inf_or_nan n s \<noteq> None \<Longrightarrow> parse_inf_or_nan n' s \<noteq> None"
  by (simp add: parse_inf_or_nan_def Let_def split: if_splits)

lemma parse_decimal_start:
  assumes "parse_decimal s \<noteq> None"
  shows "s \<noteq> [] \<and> (is_digit (hd s) \<or> hd s = 46)"
proof (rule ccontr)
  assume "\<not> (s \<noteq> [] \<and> (is_digit (hd s) \<or> hd s = 46))"
  then have "s = [] \<or> (\<not> is_digit (hd s) \<and> hd s \<noteq> 46)" by blast
  from parse_decimal_none [OF this] assms show False by simp
qed

lemma parse_inf_or_nan_start:
  assumes "parse_inf_or_nan n s \<noteq> None"
  shows "s \<noteq> [] \<and> hd s \<in> {105, 73, 110, 78}"
proof (rule ccontr)
  assume "\<not> (s \<noteq> [] \<and> hd s \<in> {105, 73, 110, 78})"
  then have "s = [] \<or> hd s \<notin> {105, 73, 110, 78}" by blast
  from parse_inf_or_nan_none [OF this] assms show False by simp
qed

lemma py_float_after_minus:
  assumes "py_float (45 # s) \<noteq> None"
  shows "py_float s \<noteq> None"
proof -
  define a where "a = (if list_all (\<lambda>c. c < 128) s then s else transform_to_ascii s)"
  define R where "R = rev (dropWhile is_ascii_space (rev a))"
  define body where "body = filter (\<lambda>x. x \<noteq> 95) R"
  have stripped: "rev (dropWhile is_ascii_space (rev (dropWhile is_ascii_space
      (if list_all (\<lambda>c. c < 128) (45 # s) then 45 # s else transform_to_ascii (45 # s)))))
      = 45 # R"
    by (simp add: a_def R_def dropWhile_snoc is_ascii_space_def)
  have signed: "py_float (45 # s) =
      (if underscores_ok 45 R then
         (case parse_decimal body of
            Some (digs, sc) \<Rightarrow>
              Some (if 0 \<le> sc then round_to_double True (digs * 10 ^ nat sc) 1
                    else round_to_double True digs (10 ^ nat (- sc)))
          | None \<Rightarrow> parse_inf_or_nan True body)
       else None)"
    unfolding py_float_def Let_def stripped
    by (simp add: asc_def body_def split: option.split)
  from assms signed have ok: "underscores_ok 45 R"
    by (simp split: if_splits)
  from assms signed ok
  have num: "parse_decimal body \<noteq> None \<or> parse_inf_or_nan True body \<noteq> None"
    by (cases "parse_decimal body") simp_all
  have body_start:
    "body \<noteq> [] \<and> (is_digit (hd body) \<or> hd body \<in> {46, 105, 73, 110, 78})"
    using num
  proof
    assume "parse_decimal body \<noteq> None"
    from parse_decimal_start [OF this] show ?thesis by auto
  next
    assume "parse_inf_or_nan True body \<noteq> None"
    from parse_inf_or_nan_start [OF this] show ?thesis by auto
  qed
  then have "R \<noteq> []" by (auto simp: body_def)
  then obtain c r where R: "R = c # r" by (cases R) auto
  with ok have c95: "c \<noteq> 95" by (auto simp: is_digit_def)
  with R have body: "body = c # filter (\<lambda>x. x \<noteq> 95) r" by (simp add: body_def)
  with body_start have c: "is_digit c \<or> c \<in> {46, 105, 73, 110, 78}" by simp
  then have c_plain: "\<not> is_ascii_space c" "c \<noteq> 45" "c \<noteq> 43"
    by (auto simp: is_digit_def is_ascii_space_def)
  from R obtain t where "a = c # r @ t"
    using rstrip_prefix [of is_ascii_space a c r] by (auto simp: R_def)
  with c_plain have lstrip: "dropWhile is_ascii_space a = a" by simp
  from ok R c95 have ok0: "underscores_ok 0 R" by simp
  from body c_plain have sign: "take 1 body \<noteq> asc ''-''" "take 1 body \<noteq> asc ''+''"
    by (simp_all add: asc_def)
  have "py_float s =
      (case parse_decimal body of
         Some (digs, sc) \<Rightarrow>
           Some (if 0 \<le> sc then round_to_double False (digs * 10 ^ nat sc) 1
                 else round_to_double False digs (10 ^ nat (- sc)))
       | None \<Rightarrow> parse_inf_or_nan False body)"
    unfolding py_float_def Let_def a_def [symmetric] lstrip R_def [symmetric]
      body_def [symmetric]
    using ok0 sign by (simp split: option.split)
  with num show ?thesis
    using parse_inf_or_nan_sign [of True body False] by (cases "parse_decimal body") auto
qed

lemma py_float_minus_rejected:
  assumes "py_float s = None"
  shows "py_float (asc ''-'' @ s) = None"
proof (rule ccontr)
  assume "py_float (asc ''-'' @ s) \<noteq> None"
  then have "py_float (45 # s) \<noteq> None" by (simp add: asc_def)
  from py_float_after_minus [OF this] assms show False by simp
qed

section \<open>The claims\<close>

text \<open>
  C8. \<open>evaluate\<close> on the empty buffer returns \<open>"0"\<close>; the buffer stays
  empty and the history is the one it was, whatever the builtins do.
\<close>

theorem evaluate_empty_buffer:
  "safe_eval h \<lparr>expression = [], history = hs\<rparr>
     = (Inr (asc ''0''), \<lparr>expression = [], history = hs\<rparr>)"
  by (simp add: safe_eval_def)

theorem evaluate_empty_buffer_witness:
  "safe_eval cpython init = (Inr [48], init)"
  using evaluate_empty_buffer [of cpython "[]"] by (simp add: init_def asc_def)

text \<open>
  C9. \<open>append\<close>, \<open>toggleSign\<close>, \<open>invert\<close>, \<open>backspace\<close> and \<open>clear\<close>
  leave the history as it is, from every state: of the six public
  operations only \<open>evaluate\<close> can change it.
\<close>

theorem only_evaluate_writes_history:
  "history (append_token token st) = history st
   \<and> history (toggle_sign h st) = history st
   \<and> history (invert st) = history st
   \<and> history (backspace st) = history st
   \<and> history (clear st) = history st
   \<and> (a \<noteq> Evaluate \<longrightarrow> history (perform h st a) = history st)"
  by (cases a)
    (simp_all add: history_clear history_backspace history_append_token
       history_toggle_sign history_invert)

theorem only_evaluate_writes_history_witness:
  "history (perform cpython \<lparr>expression = asc ''2+3'', history = [asc ''1 = 1'']\<rparr> Invert)
     = [asc ''1 = 1'']
   \<and> history (perform cpython \<lparr>expression = asc ''2+3'', history = [asc ''1 = 1'']\<rparr> Evaluate)
     = [asc ''1 = 1'', asc ''2+3 = 5'']"
proof -
  have "Invert \<noteq> Evaluate" by simp
  moreover have "safe_eval cpython \<lparr>expression = asc ''2+3'', history = [asc ''1 = 1'']\<rparr>
      = (Inr (asc ''5''), \<lparr>expression = asc ''5'', history = [asc ''1 = 1'', asc ''2+3 = 5'']\<rparr>)"
    using safe_eval_returned
      [of "\<lparr>expression = asc ''2+3'', history = [asc ''1 = 1'']\<rparr>" cpython "VInt 5" "asc ''5''"]
      eval_2_plus_3 str_5
    by (simp add: cpython_def asc_def)
  ultimately show ?thesis
    using only_evaluate_writes_history
      [of "[]" "\<lparr>expression = asc ''2+3'', history = [asc ''1 = 1'']\<rparr>" cpython Invert]
    by simp
qed

text \<open>
  C7. \<open>append\<close> replaces exactly the five glyphs by their canonical text
  and appends any other token as it is; nothing but the buffer changes.
\<close>

theorem append_token_table:
  "append_token [215] st = st\<lparr>expression := expression st @ asc ''*''\<rparr>
   \<and> append_token [247] st = st\<lparr>expression := expression st @ asc ''/''\<rparr>
   \<and> append_token (asc ''^'') st = st\<lparr>expression := expression st @ asc ''**''\<rparr>
   \<and> append_token [960] st = st\<lparr>expression := expression st @ asc ''pi''\<rparr>
   \<and> append_token [8730] st = st\<lparr>expression := expression st @ asc ''sqrt(''\<rparr>
   \<and> (token \<notin> {[215], [247], asc ''^'', [960], [8730]}
        \<longrightarrow> append_token token st = st\<lparr>expression := expression st @ token\<rparr>)"
  by (simp add: append_token_def mapping_def asc_def)

theorem append_token_table_witness:
  "append_token (asc ''7'') \<lparr>expression = asc ''2*'', history = [asc ''1 = 1'']\<rparr>
     = \<lparr>expression = asc ''2*7'', history = [asc ''1 = 1'']\<rparr>
   \<and> append_token [8730] \<lparr>expression = asc ''2*'', history = [asc ''1 = 1'']\<rparr>
     = \<lparr>expression = asc ''2*sqrt('', history = [asc ''1 = 1'']\<rparr>"
  using append_token_table
    [of "\<lparr>expression = asc ''2*'', history = [asc ''1 = 1'']\<rparr>" "asc ''7''"]
  by (simp add: asc_def)

text \<open>
  C3. From the initial state, no sequence of public operations makes the
  history longer than 20.  A successful evaluation on a full history drops
  the record at index 0 and puts the new one last, the other 19 keeping
  their order.  One operation leaves the history alone, appends one record
  to a history that is not full, or evicts the oldest and appends one:
  nothing else removes or changes a record.
\<close>

theorem history_bounded_fifo:
  "length (history (run h acts)) \<le> 20
   \<and> (expression st \<noteq> []
        \<and> host_eval h allowed_names (strip (expression st)) = Returned v
        \<and> host_str h v = Inr r \<and> length (history st) = 20
        \<longrightarrow> history (snd (safe_eval h st))
              = drop 1 (history st) @ [expression st @ asc '' = '' @ r])
   \<and> (history (perform h st a) = history st
        \<or> (\<exists>entry. length (history st) < 20
              \<and> history (perform h st a) = history st @ [entry])
        \<or> (\<exists>entry. 20 \<le> length (history st)
              \<and> history (perform h st a) = drop 1 (history st) @ [entry]))"
proof (intro conjI impI)
  show "length (history (run h acts)) \<le> 20"
    by (rule run_bounded)
next
  assume "expression st \<noteq> []
        \<and> host_eval h allowed_names (strip (expression st)) = Returned v
        \<and> host_str h v = Inr r \<and> length (history st) = 20"
  then show "history (snd (safe_eval h st))
      = drop 1 (history st) @ [expression st @ asc '' = '' @ r]"
    using safe_eval_returned [of st h v r] by simp
next
  show "history (perform h st a) = history st
        \<or> (\<exists>entry. length (history st) < 20
              \<and> history (perform h st a) = history st @ [entry])
        \<or> (\<exists>entry. 20 \<le> length (history st)
              \<and> history (perform h st a) = drop 1 (history st) @ [entry])"
    by (rule perform_history_cases)
qed

theorem history_bounded_fifo_witness:
  "length (history (run cpython [Append (asc ''2+3''), Evaluate, Evaluate])) \<le> 20
   \<and> history (snd (safe_eval cpython
        \<lparr>expression = asc ''2+3'', history = asc ''0 = 0'' # replicate 19 (asc ''1 = 1'')\<rparr>))
     = replicate 19 (asc ''1 = 1'') @ [asc ''2+3 = 5'']"
  using history_bounded_fifo
    [of cpython "[Append (asc ''2+3''), Evaluate, Evaluate]"
        "\<lparr>expression = asc ''2+3'', history = asc ''0 = 0'' # replicate 19 (asc ''1 = 1'')\<rparr>"
        "VInt 5" "asc ''5''"]
    eval_2_plus_3 str_5
  by (simp add: cpython_def asc_def)

text \<open>
  C4. When the evaluation of a non-empty buffer raises
  \<open>ZeroDivisionError\<close>, \<open>evaluate\<close> returns \<open>"Cannot divide by zero"\<close>,
  empties the buffer and leaves the history; \<open>"5/0"\<close> is such a buffer.
\<close>

theorem division_by_zero:
  "(expression st \<noteq> []
      \<and> host_eval h allowed_names (strip (expression st)) = Raised ZeroDivisionError
      \<longrightarrow> safe_eval h st = (Inr (asc ''Cannot divide by zero''), st\<lparr>expression := []\<rparr>))
   \<and> safe_eval cpython \<lparr>expression = asc ''5/0'', history = hs\<rparr>
       = (Inr (asc ''Cannot divide by zero''), \<lparr>expression = [], history = hs\<rparr>)"
proof (intro conjI impI)
  assume "expression st \<noteq> []
      \<and> host_eval h allowed_names (strip (expression st)) = Raised ZeroDivisionError"
  then show "safe_eval h st = (Inr (asc ''Cannot divide by zero''), st\<lparr>expression := []\<rparr>)"
    by (simp add: safe_eval_zero_division)
next
  show "safe_eval cpython \<lparr>expression = asc ''5/0'', history = hs\<rparr>
       = (Inr (asc ''Cannot divide by zero''), \<lparr>expression = [], history = hs\<rparr>)"
    using safe_eval_zero_division [of "\<lparr>expression = asc ''5/0'', history = hs\<rparr>" cpython]
      eval_5_by_0
    by (simp add: cpython_def asc_def)
qed

theorem division_by_zero_witness:
  "safe_eval cpython \<lparr>expression = asc ''5/0'', history = [asc ''2+3 = 5'']\<rparr>
     = (Inr (asc ''Cannot divide by zero''), \<lparr>expression = [], history = [asc ''2+3 = 5'']\<rparr>)"
proof -
  have "expression \<lparr>expression = asc ''5/0'', history = [asc ''2+3 = 5'']\<rparr> \<noteq> []"
    by (simp add: asc_def)
  moreover have "host_eval cpython allowed_names
      (strip (expression \<lparr>expression = asc ''5/0'', history = [asc ''2+3 = 5'']\<rparr>))
      = Raised ZeroDivisionError"
    using eval_5_by_0 by (simp add: cpython_def)
  ultimately show ?thesis
    using division_by_zero
      [of "\<lparr>expression = asc ''5/0'', history = [asc ''2+3 = 5'']\<rparr>" cpython]
    by simp
qed

text \<open>
  The success path.  When the evaluation of a non-empty buffer returns a
  value and \<open>str\<close> gives its text \<open>r\<close>, \<open>evaluate\<close> returns \<open>r\<close>,
  appends the one record \<open>buffer = r\<close> to the history (under the cap of
  20) and makes \<open>r\<close> the buffer.  On \<open>"2+3"\<close> it returns \<open>"5"\<close>, records
  \<open>"2+3 = 5"\<close> and leaves the buffer \<open>"5"\<close>.
\<close>

theorem evaluate_success:
  "(expression st \<noteq> []
      \<and> host_eval h allowed_names (strip (expression st)) = Returned v
      \<and> host_str h v = Inr r
      \<longrightarrow> safe_eval h st =
            (Inr r,
             st\<lparr>history :=
                   (if length (history st) < 20
                    then history st @ [expression st @ asc '' = '' @ r]
                    else drop 1 (history st) @ [expression st @ asc '' = '' @ r]),
                expression := r\<rparr>))
   \<and> safe_eval cpython \<lparr>expression = asc ''2+3'', history = hs\<rparr> =
       (Inr (asc ''5''),
        \<lparr>expression = asc ''5'',
           history = (if length hs < 20 then hs @ [asc ''2+3 = 5'']
                      else drop 1 hs @ [asc ''2+3 = 5''])\<rparr>)"
proof (intro conjI impI)
  assume "expression st \<noteq> []
      \<and> host_eval h allowed_names (strip (expression st)) = Returned v
      \<and> host_str h v = Inr r"
  then show "safe_eval h st =
            (Inr r,
             st\<lparr>history :=
                   (if length (history st) < 20
                    then history st @ [expression st @ asc '' = '' @ r]
                    else drop 1 (history st) @ [expression st @ asc '' = '' @ r]),
                expression := r\<rparr>)"
    by (simp add: safe_eval_returned)
next
  show "safe_eval cpython \<lparr>expression = asc ''2+3'', history = hs\<rparr> =
       (Inr (asc ''5''),
        \<lparr>expression = asc ''5'',
           history = (if length hs < 20 then hs @ [asc ''2+3 = 5'']
                      else drop 1 hs @ [asc ''2+3 = 5''])\<rparr>)"
    using safe_eval_returned
      [of "\<lparr>expression = asc ''2+3'', history = hs\<rparr>" cpython "VInt 5" "asc ''5''"]
      eval_2_plus_3 str_5
    by (simp add: cpython_def asc_def)
qed

theorem evaluate_success_witness:
  "safe_eval cpython \<lparr>expression = asc ''2+3'', history = []\<rparr> =
     (Inr (asc ''5''), \<lparr>expression = asc ''5'', history = [asc ''2+3 = 5'']\<rparr>)"
proof -
  have "expression \<lparr>expression = asc ''2+3'', history = []\<rparr> \<noteq> []"
    by (simp add: asc_def)
  moreover have "host_eval cpython allowed_names
      (strip (expression \<lparr>expression = asc ''2+3'', history = []\<rparr>)) = Returned (VInt 5)"
    using eval_2_plus_3 by (simp add: cpython_def)
  moreover have "host_str cpython (VInt 5) = Inr (asc ''5'')"
    using str_5 by (simp add: cpython_def)
  ultimately show ?thesis
    using evaluate_success
      [of "\<lparr>expression = asc ''2+3'', history = []\<rparr>" cpython "VInt 5" "asc ''5''"]
    by (simp add: asc_def)
qed

text \<open>
  C5.  Not every buffer that evaluates takes the success path: \<open>str(result)\<close>
  stands after the \<open>try\<close>, so an exception of \<open>str\<close> leaves
  \<open>evaluate\<close>.  The buffer \<open>10**4300\<close> evaluates to an integer of 4301
  digits, which \<open>str\<close> refuses to print: \<open>evaluate\<close> raises
  \<open>ValueError\<close>, returns no string, appends no record and keeps the
  buffer, where the claim asks for the string, the record and the new buffer.
\<close>

theorem str_outside_try_escapes:
  "safe_eval cpython \<lparr>expression = asc ''10**4300'', history = hs\<rparr>
     = (Inl ValueError, \<lparr>expression = asc ''10**4300'', history = hs\<rparr>)"
proof -
  let ?st = "\<lparr>expression = asc ''10**4300'', history = hs\<rparr>"
  have nonempty: "expression ?st \<noteq> []"
    by (simp add: asc_def)
  have returned: "host_eval cpython allowed_names (strip (expression ?st))
      = Returned (VInt (int (10 ^ 4300)))"
    unfolding cpython_fields calc.select_convs
    by (rule inside_fragment [OF fragment_big_power])
  have raised: "host_str cpython (VInt (int (10 ^ 4300))) = Inl ValueError"
    unfolding cpython_fields by (rule str_big_power)
  from safe_eval_escapes(2) [OF nonempty returned raised] show ?thesis .
qed




text \<open>
  C1.  The namespace is not closed: attribute access is evaluated.  On the
  buffer \<open>().__class__\<close> the evaluation returns the class of the empty
  tuple, an object of the host, and \<open>evaluate\<close> takes the success path
  where the claim asks for \<open>"Invalid expression"\<close>.
\<close>

theorem attribute_access_is_evaluated:
  "safe_eval cpython \<lparr>expression = asc ''().__class__'', history = []\<rparr>
     = (Inr (asc ''<class '' @ [39] @ asc ''tuple'' @ [39] @ asc ''>''),
        \<lparr>expression = asc ''<class '' @ [39] @ asc ''tuple'' @ [39] @ asc ''>'',
           history = [asc ''().__class__ = <class '' @ [39] @ asc ''tuple'' @ [39] @ asc ''>'']\<rparr>)"
  using safe_eval_returned
    [of "\<lparr>expression = asc ''().__class__'', history = []\<rparr>" cpython
        "VClass (asc ''tuple'')" "asc ''<class '' @ [39] @ asc ''tuple'' @ [39] @ asc ''>''"]
    eval_tuple_class str_tuple_class
  by (simp add: cpython_def asc_def)

text \<open>
  C6. \<open>toggleSign\<close> leaves an empty buffer alone; replaces a buffer that
  \<open>float\<close> accepts by \<open>str\<close> of the negated value; and otherwise strips
  one leading \<open>-\<close>, or prepends one when there is none.  So \<open>"4"\<close> becomes
  \<open>"-4.0"\<close> and then \<open>"4.0"\<close>, which \<open>float\<close> reads as the same number as
  \<open>"4"\<close>.
\<close>

theorem toggle_sign_cases:
  "toggle_sign h \<lparr>expression = [], history = hs\<rparr> = \<lparr>expression = [], history = hs\<rparr>
   \<and> (expression st \<noteq> [] \<and> host_float h (expression st) = Some x
        \<longrightarrow> toggle_sign h st = st\<lparr>expression := host_float_str h (times_minus_one x)\<rparr>)
   \<and> (host_float h (asc ''-'' @ rest) = None
        \<longrightarrow> toggle_sign h (st\<lparr>expression := asc ''-'' @ rest\<rparr>) = st\<lparr>expression := rest\<rparr>)
   \<and> (expression st \<noteq> [] \<and> host_float h (expression st) = None
        \<and> take 1 (expression st) \<noteq> asc ''-''
        \<longrightarrow> toggle_sign h st = st\<lparr>expression := asc ''-'' @ expression st\<rparr>)
   \<and> toggle_sign cpython \<lparr>expression = asc ''4'', history = hs\<rparr>
       = \<lparr>expression = asc ''-4.0'', history = hs\<rparr>
   \<and> toggle_sign cpython \<lparr>expression = asc ''-4.0'', history = hs\<rparr>
       = \<lparr>expression = asc ''4.0'', history = hs\<rparr>
   \<and> py_float (asc ''4.0'') = py_float (asc ''4'')"
proof (intro conjI impI)
  show "toggle_sign h \<lparr>expression = [], history = hs\<rparr> = \<lparr>expression = [], history = hs\<rparr>"
    by (simp add: toggle_sign_def)
next
  assume "expression st \<noteq> [] \<and> host_float h (expression st) = Some x"
  then show "toggle_sign h st = st\<lparr>expression := host_float_str h (times_minus_one x)\<rparr>"
    by (simp add: toggle_sign_def)
next
  assume "host_float h (asc ''-'' @ rest) = None"
  then show "toggle_sign h (st\<lparr>expression := asc ''-'' @ rest\<rparr>) = st\<lparr>expression := rest\<rparr>"
    by (simp add: toggle_sign_def asc_def)
next
  assume "expression st \<noteq> [] \<and> host_float h (expression st) = None
        \<and> take 1 (expression st) \<noteq> asc ''-''"
  then show "toggle_sign h st = st\<lparr>expression := asc ''-'' @ expression st\<rparr>"
    by (simp add: toggle_sign_def)
next
  show "toggle_sign cpython \<lparr>expression = asc ''4'', history = hs\<rparr>
       = \<lparr>expression = asc ''-4.0'', history = hs\<rparr>"
    using float_4 float_str_4 [of True] by (simp add: toggle_sign_def cpython_def asc_def)
next
  show "toggle_sign cpython \<lparr>expression = asc ''-4.0'', history = hs\<rparr>
       = \<lparr>expression = asc ''4.0'', history = hs\<rparr>"
    using float_minus_4_0 float_str_4 [of False]
    by (simp add: toggle_sign_def cpython_def asc_def)
next
  show "py_float (asc ''4.0'') = py_float (asc ''4'')"
    by (simp add: float_4 float_4_0)
qed

theorem toggle_sign_cases_witness:
  "toggle_sign cpython \<lparr>expression = asc ''4'', history = [asc ''2+3 = 5'']\<rparr>
     = \<lparr>expression = asc ''-4.0'', history = [asc ''2+3 = 5'']\<rparr>
   \<and> toggle_sign cpython \<lparr>expression = asc ''-'', history = []\<rparr>
     = \<lparr>expression = [], history = []\<rparr>"
proof -
  have "expression \<lparr>expression = asc ''4'', history = [asc ''2+3 = 5'']\<rparr> \<noteq> []
      \<and> host_float cpython (expression \<lparr>expression = asc ''4'', history = [asc ''2+3 = 5'']\<rparr>)
          = Some (Finite False 4503599627370496 (- 50))"
    using float_4 by (simp add: cpython_def asc_def)
  moreover have "host_float_str cpython (times_minus_one (Finite False 4503599627370496 (- 50)))
      = asc ''-4.0''"
    using float_str_4 [of True] by (simp add: cpython_def)
  moreover have "host_float cpython (asc ''-'' @ []) = None"
    using float_lone_minus by (simp add: cpython_def)
  ultimately show ?thesis
    using toggle_sign_cases
      [of cpython "[asc ''2+3 = 5'']" "\<lparr>expression = asc ''4'', history = [asc ''2+3 = 5'']\<rparr>"
          "Finite False 4503599627370496 (- 50)" "[]"]
      toggle_sign_cases
      [of cpython "[]" "\<lparr>expression = [], history = []\<rparr>"
          "Finite False 4503599627370496 (- 50)" "[]"]
    by simp
qed

text \<open>
  C10, as amended.  Take a non-empty buffer that \<open>float\<close> rejects.  If it
  does not begin with \<open>-\<close>, two \<open>toggleSign\<close> calls restore it exactly:
  the first prepends \<open>-\<close>, \<open>float\<close> rejects the result as well, and the
  second strips the sign again.  If it is \<open>-\<close> followed by \<open>rest\<close>, they
  restore it exactly provided \<open>rest\<close> is not empty, does not begin with
  \<open>-\<close> and is rejected by \<open>float\<close> too.

  As stated, for every such buffer, the claim fails: \<open>"-"\<close> becomes the
  empty buffer, which \<open>toggleSign\<close> leaves alone, and \<open>"--a"\<close> loses
  both signs.
\<close>

theorem toggle_sign_twice:
  "(expression st \<noteq> [] \<and> take 1 (expression st) \<noteq> asc ''-''
      \<and> host_float h (expression st) = None
      \<and> host_float h (asc ''-'' @ expression st) = None
      \<longrightarrow> toggle_sign h (toggle_sign h st) = st)
   \<and> (expression st \<noteq> [] \<and> take 1 (expression st) \<noteq> asc ''-''
      \<and> py_float (expression st) = None
      \<longrightarrow> toggle_sign cpython (toggle_sign cpython st) = st)
   \<and> (rest \<noteq> [] \<and> take 1 rest \<noteq> asc ''-''
      \<and> host_float h (asc ''-'' @ rest) = None \<and> host_float h rest = None
      \<longrightarrow> toggle_sign h (toggle_sign h (st\<lparr>expression := asc ''-'' @ rest\<rparr>))
            = st\<lparr>expression := asc ''-'' @ rest\<rparr>)"
proof (intro conjI impI)
  assume "expression st \<noteq> [] \<and> take 1 (expression st) \<noteq> asc ''-''
      \<and> host_float h (expression st) = None
      \<and> host_float h (asc ''-'' @ expression st) = None"
  then show "toggle_sign h (toggle_sign h st) = st"
    by (simp add: toggle_sign_def asc_def)
next
  assume b: "expression st \<noteq> [] \<and> take 1 (expression st) \<noteq> asc ''-''
      \<and> py_float (expression st) = None"
  then have "py_float (asc ''-'' @ expression st) = None"
    by (simp add: py_float_minus_rejected)
  with b show "toggle_sign cpython (toggle_sign cpython st) = st"
    by (simp add: toggle_sign_def cpython_def asc_def)
next
  assume "rest \<noteq> [] \<and> take 1 rest \<noteq> asc ''-''
      \<and> host_float h (asc ''-'' @ rest) = None \<and> host_float h rest = None"
  then show "toggle_sign h (toggle_sign h (st\<lparr>expression := asc ''-'' @ rest\<rparr>))
            = st\<lparr>expression := asc ''-'' @ rest\<rparr>"
    by (simp add: toggle_sign_def asc_def)
qed

lemma float_rejects_examples:
  "py_float (asc ''2+3'') = None" "py_float (asc ''-(2)'') = None"
  "py_float (asc ''(2)'') = None" "py_float (asc ''--a'') = None"
  "py_float (asc ''-a'') = None"
  by (simp_all add: float_eval)

theorem toggle_sign_twice_witness:
  "toggle_sign cpython (toggle_sign cpython \<lparr>expression = asc ''2+3'', history = []\<rparr>)
     = \<lparr>expression = asc ''2+3'', history = []\<rparr>
   \<and> toggle_sign cpython (toggle_sign cpython \<lparr>expression = asc ''-(2)'', history = []\<rparr>)
     = \<lparr>expression = asc ''-(2)'', history = []\<rparr>"
proof -
  have "expression \<lparr>expression = asc ''2+3'', history = []\<rparr> \<noteq> []
      \<and> take 1 (expression \<lparr>expression = asc ''2+3'', history = []\<rparr>) \<noteq> asc ''-''
      \<and> py_float (expression \<lparr>expression = asc ''2+3'', history = []\<rparr>) = None"
    using float_rejects_examples(1) by (simp add: asc_def)
  moreover have "asc ''(2)'' \<noteq> [] \<and> take 1 (asc ''(2)'') \<noteq> asc ''-''
      \<and> host_float cpython (asc ''-'' @ asc ''(2)'') = None
      \<and> host_float cpython (asc ''(2)'') = None"
    using float_rejects_examples(2,3) by (simp add: cpython_def asc_def)
  ultimately show ?thesis
    using toggle_sign_twice
      [of "\<lparr>expression = asc ''2+3'', history = []\<rparr>" cpython "asc ''(2)''"]
    by (simp add: asc_def)
qed

theorem toggle_sign_twice_counterexample:
  "asc ''-'' \<noteq> [] \<and> py_float (asc ''-'') = None
   \<and> toggle_sign cpython (toggle_sign cpython \<lparr>expression = asc ''-'', history = []\<rparr>)
       = \<lparr>expression = [], history = []\<rparr>
   \<and> py_float (asc ''--a'') = None
   \<and> toggle_sign cpython (toggle_sign cpython \<lparr>expression = asc ''--a'', history = []\<rparr>)
       = \<lparr>expression = asc ''a'', history = []\<rparr>"
  using float_lone_minus float_rejects_examples(4,5)
  by (simp add: toggle_sign_def cpython_def asc_def)

end
